theory Spec2Isabelle
  imports Complex_Main
begin

section \<open>Values of the host language\<close>

text \<open>
  The dashboard prototype is TypeScript. Two revisions of the same file are in the
  repository: \<^verbatim>\<open>finalUI.ts\<close> and an earlier one without the DORA, team velocity and API
  status data. Both declare the same names, so a program holds one of them; the later
  revision keeps the source's names here and the earlier one carries the suffix
  \<^verbatim>\<open>_part_000\<close>.

  A value of type \<^verbatim>\<open>number\<close> that the program receives from its caller is any
  JavaScript number: a finite value, NaN or an infinity. A finite value is the rational
  it denotes (every finite double is one). Signed zero is not distinguished; nothing
  below divides by a variable. The numbers the program builds itself are all finite, so a
  field of type \<^verbatim>\<open>number\<close> holds a rational; \<^verbatim>\<open>weeks\<close>, which comes from the caller,
  is a \<open>number\<close>.

  The one computation of the program whose result depends on rounding is the product
  \<^verbatim>\<open>Math.random() * k\<close>: it is rounded as IEEE-754 prescribes, see below. The decimal
  literals of the mock data and \<^verbatim>\<open>resetTime\<close> stand for their mathematical values; no
  statement below depends on them.
\<close>

datatype number = Finite rat | NaN | PosInfinity | NegInfinity

text \<open>
  The only errors this program can raise come from the array constructor that
  \<^verbatim>\<open>Array.from\<close> calls. A synchronous call completes normally or throws; the promise
  of an \<^verbatim>\<open>async\<close> function is fulfilled with the returned value or rejected with the
  error thrown in its body.
\<close>

datatype error = RangeError

datatype 'a completion = Normal 'a | Throw error

datatype 'a promise = Fulfilled 'a | Rejected error

subsection \<open>\<^verbatim>\<open>Array.from({ length: n }, mapfn)\<close>\<close>

text \<open>
  \<^verbatim>\<open>ToLength\<close> of the language standard: the argument is truncated towards zero
  (NaN counts as 0), everything not above 0 becomes 0, and the result is capped at
  \<open>2 ^ 53 - 1\<close>.
\<close>

definition trunc :: "rat \<Rightarrow> int" where
  "trunc q = (if 0 \<le> q then \<lfloor>q\<rfloor> else \<lceil>q\<rceil>)"

fun ToLength :: "number \<Rightarrow> nat" where
  "ToLength NaN = 0"
| "ToLength NegInfinity = 0"
| "ToLength PosInfinity = 2 ^ 53 - 1"
| "ToLength (Finite q) =
     (let len = trunc q in if len \<le> 0 then 0 else min (nat len) (2 ^ 53 - 1))"

text \<open>
  The filling loop of \<^verbatim>\<open>Array.from\<close>: the mapping function is called once per index,
  in increasing order. The arrow functions of this program take no argument, so the
  callback is a transformer of the state it reads and writes (here: how many random
  numbers have been drawn) that also yields the element.
\<close>

fun fill :: "nat \<Rightarrow> ('s \<Rightarrow> 'a \<times> 's) \<Rightarrow> 's \<Rightarrow> 'a list \<times> 's" where
  "fill 0 mapfn s = ([], s)"
| "fill (Suc k) mapfn s =
     (case mapfn s of (v, s1) \<Rightarrow>
        (case fill k mapfn s1 of (vs, s2) \<Rightarrow> (v # vs, s2)))"

text \<open>
  \<^verbatim>\<open>Array.from\<close> on an array-like object without an iterator: the length is read with
  \<^verbatim>\<open>ToLength\<close>, the array is made by \<^verbatim>\<open>new Array(len)\<close>, which throws a RangeError
  unless \<open>len < 2 ^ 32\<close>, and only then is the callback run. Memory is not part of the
  model: a list of any length below \<open>2 ^ 32\<close> is built, while a host may give up on a
  long array before that.
\<close>

definition Array_from :: "number \<Rightarrow> ('s \<Rightarrow> 'a \<times> 's) \<Rightarrow> 's \<Rightarrow> 'a list completion \<times> 's" where
  "Array_from len mapfn s =
     (let n = ToLength len in
      if 2 ^ 32 \<le> n then (Throw RangeError, s)
      else (case fill n mapfn s of (vs, s') \<Rightarrow> (Normal vs, s')))"

subsection \<open>Doubles and their product\<close>

text \<open>
  A finite double that is not negative is a significand below \<open>2 ^ 53\<close> times a power
  of two whose exponent is from \<open>-1074\<close> to \<open>971\<close>. \<^verbatim>\<open>Math.random()\<close> returns such a
  double, at least 0 and below 1.
\<close>

datatype double = Double nat int

fun value_of :: "double \<Rightarrow> rat" where
  "value_of (Double m e) = of_nat m * 2 powi e"

fun is_double :: "double \<Rightarrow> bool" where
  "is_double (Double m e) = (m < 2 ^ 53 \<and> - 1074 \<le> e \<and> e \<le> 971)"

text \<open>The number of binary digits of a natural number.\<close>

fun bit_length :: "nat \<Rightarrow> nat" where
  "bit_length n = (if n = 0 then 0 else Suc (bit_length (n div 2)))"

declare bit_length.simps [simp del]

text \<open>
  \<open>M / 2 ^ s\<close> rounded to the nearest natural number, a tie going to the even one: the
  rounding of IEEE-754 when the last \<open>s\<close> digits of a significand are dropped.
\<close>

definition round_half_even :: "nat \<Rightarrow> nat \<Rightarrow> nat" where
  "round_half_even M s =
     (let q = M div 2 ^ s; r = M mod 2 ^ s
      in if 2 ^ s < 2 * r \<or> (2 * r = 2 ^ s \<and> odd q) then q + 1 else q)"

text \<open>
  The product \<^verbatim>\<open>x * k\<close> of a double and a literal \<open>k\<close> that is a natural number below
  \<open>2 ^ 53\<close>, as the language computes it: the exact product, with its significand
  rounded to 53 digits. Nothing else happens to the products of this program: the lowest
  digit of the exact product is not below that of \<open>x\<close>, so there is no underflow, and
  a product of a draw is below 5000, so there is no overflow.
\<close>

fun times_double :: "double \<Rightarrow> nat \<Rightarrow> rat" where
  "times_double (Double m e) k =
     (let M = m * k; s = bit_length M - 53
      in value_of (Double (round_half_even M s) (e + int s)))"

subsection \<open>\<^verbatim>\<open>Math.random\<close> and \<^verbatim>\<open>Math.floor\<close>\<close>

text \<open>
  The numbers that \<^verbatim>\<open>Math.random()\<close> returns during one call of the fetch function
  are an input of the model: \<open>draws i\<close> is the result of the call number \<open>i\<close>. The
  state threaded through the callbacks is the number of draws made so far.
  \<^verbatim>\<open>Math.floor\<close> of a double is exact.
\<close>

definition Math_random :: "(nat \<Rightarrow> double) \<Rightarrow> nat \<Rightarrow> double \<times> nat" where
  "Math_random draws i = (draws i, Suc i)"

definition Math_floor :: "rat \<Rightarrow> rat" where
  "Math_floor x = of_int \<lfloor>x\<rfloor>"

section \<open>Core data structures\<close>

record Contributor =
  user :: string
  avatarUrl :: string
  commits :: rat
  loc_changed :: rat

record LanguageMetric =
  name :: string
  percentage :: rat
  color :: string

datatype Severity = Low | Medium | High

record IssuePrediction =
  avgTimeToFirstLabelHours :: rat
  severity :: Severity
  nextWeekPredictedIssues :: rat

record DoraMetrics =
  deploymentFrequency :: string
  leadTimeForChangesHours :: rat
  timeToRestoreServiceHours :: rat
  changeFailureRate :: string

record TeamVelocity =
  currentSprintName :: string
  totalStoryPoints :: rat
  completedStoryPoints :: rat
  sprintCompletionPercentage :: rat

record ApiStatus =
  callsMade :: rat
  rateLimitRemaining :: rat
  rateLimitTotal :: rat
  resetTime :: rat
  isRateLimited :: bool

text \<open>The aggregate of the earlier revision.\<close>

record ProjectData_part_000 =
  owner :: string
  repo :: string
  fullName :: string
  description :: string
  stars :: rat
  primaryLanguage :: string
  avgPrMergeTimeDays :: rat
  weeklyCommits :: "rat list"
  weeklyPrOpened :: "rat list"
  weeklyPrMerged :: "rat list"
  weeklyAdditions :: "rat list"
  weeklyDeletions :: "rat list"
  languageBreakdown :: "LanguageMetric list"
  triageScore :: rat
  issuePredictionModel :: IssuePrediction
  contributors :: "Contributor list"

text \<open>The aggregate of \<^verbatim>\<open>finalUI.ts\<close>; the unqualified field names below are its fields.\<close>

record ProjectData =
  owner :: string
  repo :: string
  fullName :: string
  description :: string
  stars :: rat
  primaryLanguage :: string
  avgPrMergeTimeDays :: rat
  weeklyCommits :: "rat list"
  weeklyPrOpened :: "rat list"
  weeklyPrMerged :: "rat list"
  weeklyAdditions :: "rat list"
  weeklyDeletions :: "rat list"
  languageBreakdown :: "LanguageMetric list"
  triageScore :: rat
  issuePredictionModel :: IssuePrediction
  doraMetrics :: DoraMetrics
  teamVelocity :: TeamVelocity
  apiStatus :: ApiStatus
  contributors :: "Contributor list"



section \<open>Repository comparison view\<close>

text \<open>
  The type of \<^verbatim>\<open>comparisonKey\<close> is a union of string literals: three in the earlier
  revision, four in \<^verbatim>\<open>finalUI.ts\<close>. Each union is a datatype, and \<open>literal\<close> gives the
  string a member stands for.
\<close>

datatype ComparisonKey_part_000 = WeeklyCommits' | AvgPrMergeTimeDays' | TriageScore'

datatype ComparisonKey = WeeklyCommits | AvgPrMergeTimeDays | TriageScore | DoraMetrics



text \<open>
  \<^verbatim>\<open>ComparisonState\<close> is declared with the same three properties in both revisions; the
  record takes the aggregate and the key union of the revision as type parameters.
\<close>

record ('d, 'k) ComparisonState =
  repoA :: "'d option"
  repoB :: "'d option"
  comparisonKey :: 'k

text \<open>
  The lines written by \<^verbatim>\<open>console.log\<close>. A line is kept as the template it comes from
  together with the interpolated values, not as rendered text.
\<close>

datatype logline =
  ExecutingGraphQLQuery string string number
| RenderingComparisonChart string

text \<open>
  What the program can change: its one global variable, \<^verbatim>\<open>comparisonState\<close>, and the
  console it writes to.
\<close>

record ('d, 'k) World =
  comparisonState :: "('d, 'k) ComparisonState"
  console :: "logline list"

definition console_log :: "logline \<Rightarrow> ('d, 'k) World \<Rightarrow> ('d, 'k) World" where
  "console_log l w = w\<lparr>console := console w @ [l]\<rparr>"

text \<open>
  The initial value of the global, and the world when the script has been loaded. The
  handler assigned to \<^verbatim>\<open>window.onload\<close> has an empty body, and nothing in the source
  assigns to a property of \<^verbatim>\<open>comparisonState\<close>.
\<close>

definition comparisonState_init_part_000 ::
  "(ProjectData_part_000, ComparisonKey_part_000) ComparisonState" where
  "comparisonState_init_part_000 = \<lparr>repoA = None, repoB = None, comparisonKey = WeeklyCommits'\<rparr>"

definition comparisonState_init :: "(ProjectData, ComparisonKey) ComparisonState" where
  "comparisonState_init = \<lparr>repoA = None, repoB = None, comparisonKey = WeeklyCommits\<rparr>"

definition loaded_part_000 :: "(ProjectData_part_000, ComparisonKey_part_000) World" where
  "loaded_part_000 = \<lparr>comparisonState = comparisonState_init_part_000, console = []\<rparr>"

definition loaded :: "(ProjectData, ComparisonKey) World" where
  "loaded = \<lparr>comparisonState = comparisonState_init, console = []\<rparr>"

text \<open>
  \<^verbatim>\<open>renderComparisonChart\<close> has the same body in both revisions. A snapshot is an object
  or null, so \<^verbatim>\<open>!comparisonState.repoA\<close> holds exactly when it is null. The function has
  no statement that can throw.
\<close>

definition renderComparisonChart :: "string \<Rightarrow> ('d, 'k) World \<Rightarrow> unit completion \<times> ('d, 'k) World" where
  "renderComparisonChart key w =
     (if repoA (comparisonState w) = None \<or> repoB (comparisonState w) = None
      then (Normal (), w)
      else (Normal (), console_log (RenderingComparisonChart key) w))"

section \<open>Fetching\<close>

text \<open>
  \<^verbatim>\<open>fetchAllDataViaGraphQL\<close> of the earlier revision. The log line is written first; the
  properties of the object literal are evaluated in the order written, so the five arrays
  draw their random numbers one after the other, and an error thrown while an array is
  made rejects the promise before anything else is evaluated. Beyond the source's own
  parameters the model takes the results of \<^verbatim>\<open>Math.random()\<close> during the call and the
  world the call starts in, and returns the settled promise with the world it leaves.
\<close>

definition fetchAllDataViaGraphQL_part_000 ::
  "(nat \<Rightarrow> double) \<Rightarrow> string \<Rightarrow> string \<Rightarrow> number \<Rightarrow> ('d, 'k) World
     \<Rightarrow> ProjectData_part_000 promise \<times> ('d, 'k) World" where
  "fetchAllDataViaGraphQL_part_000 draws owner' repo' weeks w =
     (let w1 = console_log (ExecutingGraphQLQuery owner' repo' weeks) w in
      (case Array_from weeks (\<lambda>s. case Math_random draws s of (r, s') \<Rightarrow> (Math_floor (times_double r 500), s')) 0 of
         (Throw e, _) \<Rightarrow> (Rejected e, w1)
       | (Normal wc, s1) \<Rightarrow>
      (case Array_from weeks (\<lambda>s. case Math_random draws s of (r, s') \<Rightarrow> (Math_floor (times_double r 80), s')) s1 of
         (Throw e, _) \<Rightarrow> (Rejected e, w1)
       | (Normal wo, s2) \<Rightarrow>
      (case Array_from weeks (\<lambda>s. case Math_random draws s of (r, s') \<Rightarrow> (Math_floor (times_double r 60), s')) s2 of
         (Throw e, _) \<Rightarrow> (Rejected e, w1)
       | (Normal wm, s3) \<Rightarrow>
      (case Array_from weeks (\<lambda>s. case Math_random draws s of (r, s') \<Rightarrow> (Math_floor (times_double r 5000), s')) s3 of
         (Throw e, _) \<Rightarrow> (Rejected e, w1)
       | (Normal wa, s4) \<Rightarrow>
      (case Array_from weeks (\<lambda>s. case Math_random draws s of (r, s') \<Rightarrow> (Math_floor (times_double r 2000), s')) s4 of
         (Throw e, _) \<Rightarrow> (Rejected e, w1)
       | (Normal wd, s5) \<Rightarrow>
        (Fulfilled
          \<lparr>ProjectData_part_000.owner = owner',
           ProjectData_part_000.repo = repo',
           ProjectData_part_000.fullName = owner' @ ''/'' @ repo',
           ProjectData_part_000.description = ''Real-time analysis via GitHub GraphQL.'',
           ProjectData_part_000.stars = 125345,
           ProjectData_part_000.primaryLanguage = ''TypeScript'',
           ProjectData_part_000.avgPrMergeTimeDays = 35 / 10,
           ProjectData_part_000.weeklyCommits = wc,
           ProjectData_part_000.weeklyPrOpened = wo,
           ProjectData_part_000.weeklyPrMerged = wm,
           ProjectData_part_000.weeklyAdditions = wa,
           ProjectData_part_000.weeklyDeletions = wd,
           ProjectData_part_000.languageBreakdown =
             [\<lparr>name = ''TypeScript'', percentage = 70, color = ''#3178C6''\<rparr>,
              \<lparr>name = ''JavaScript'', percentage = 20, color = ''#F7DF1E''\<rparr>,
              \<lparr>name = ''CSS'', percentage = 10, color = ''#563D7C''\<rparr>],
           ProjectData_part_000.triageScore = 85,
           ProjectData_part_000.issuePredictionModel =
             \<lparr>avgTimeToFirstLabelHours = 42 / 10,
              severity = Low,
              nextWeekPredictedIssues = 35\<rparr>,
           ProjectData_part_000.contributors =
             [\<lparr>user = ''gql-master'', avatarUrl = ''...'', commits = 950,
               loc_changed = 75000\<rparr>]\<rparr>,
         w1)))))))"

text \<open>
  \<^verbatim>\<open>fetchAllDataViaGraphQL\<close> of \<^verbatim>\<open>finalUI.ts\<close>. It also reads the clock:
  \<open>now\<close> is what \<^verbatim>\<open>Date.now()\<close> returns, in milliseconds.
\<close>

definition fetchAllDataViaGraphQL ::
  "(nat \<Rightarrow> double) \<Rightarrow> int \<Rightarrow> string \<Rightarrow> string \<Rightarrow> number \<Rightarrow> ('d, 'k) World
     \<Rightarrow> ProjectData promise \<times> ('d, 'k) World" where
  "fetchAllDataViaGraphQL draws now owner' repo' weeks w =
     (let w1 = console_log (ExecutingGraphQLQuery owner' repo' weeks) w in
      (case Array_from weeks (\<lambda>s. case Math_random draws s of (r, s') \<Rightarrow> (Math_floor (times_double r 500), s')) 0 of
         (Throw e, _) \<Rightarrow> (Rejected e, w1)
       | (Normal wc, s1) \<Rightarrow>
      (case Array_from weeks (\<lambda>s. case Math_random draws s of (r, s') \<Rightarrow> (Math_floor (times_double r 80), s')) s1 of
         (Throw e, _) \<Rightarrow> (Rejected e, w1)
       | (Normal wo, s2) \<Rightarrow>
      (case Array_from weeks (\<lambda>s. case Math_random draws s of (r, s') \<Rightarrow> (Math_floor (times_double r 60), s')) s2 of
         (Throw e, _) \<Rightarrow> (Rejected e, w1)
       | (Normal wm, s3) \<Rightarrow>
      (case Array_from weeks (\<lambda>s. case Math_random draws s of (r, s') \<Rightarrow> (Math_floor (times_double r 5000), s')) s3 of
         (Throw e, _) \<Rightarrow> (Rejected e, w1)
       | (Normal wa, s4) \<Rightarrow>
      (case Array_from weeks (\<lambda>s. case Math_random draws s of (r, s') \<Rightarrow> (Math_floor (times_double r 2000), s')) s4 of
         (Throw e, _) \<Rightarrow> (Rejected e, w1)
       | (Normal wd, s5) \<Rightarrow>
        (Fulfilled
          \<lparr>owner = owner',
           repo = repo',
           fullName = owner' @ ''/'' @ repo',
           description = ''Real-time analysis via GitHub GraphQL. Now includes DORA and Team Velocity metrics.'',
           stars = 125345,
           primaryLanguage = ''TypeScript'',
           avgPrMergeTimeDays = 35 / 10,
           weeklyCommits = wc,
           weeklyPrOpened = wo,
           weeklyPrMerged = wm,
           weeklyAdditions = wa,
           weeklyDeletions = wd,
           languageBreakdown =
             [\<lparr>name = ''TypeScript'', percentage = 70, color = ''#3178C6''\<rparr>,
              \<lparr>name = ''JavaScript'', percentage = 20, color = ''#F7DF1E''\<rparr>,
              \<lparr>name = ''CSS'', percentage = 10, color = ''#563D7C''\<rparr>],
           triageScore = 85,
           issuePredictionModel =
             \<lparr>avgTimeToFirstLabelHours = 42 / 10,
              severity = Low,
              nextWeekPredictedIssues = 35\<rparr>,
           doraMetrics =
             \<lparr>deploymentFrequency = ''3 times per day'',
              leadTimeForChangesHours = 48 / 10,
              timeToRestoreServiceHours = 5 / 10,
              changeFailureRate = ''5%''\<rparr>,
           teamVelocity =
             \<lparr>currentSprintName = ''Q3 Feature Sprint 2'',
              totalStoryPoints = 50,
              completedStoryPoints = 35,
              sprintCompletionPercentage = 70\<rparr>,
           apiStatus =
             \<lparr>callsMade = 15,
              rateLimitRemaining = 4985,
              rateLimitTotal = 5000,
              resetTime = of_int now / 1000 + 3600,
              isRateLimited = False\<rparr>,
           contributors =
             [\<lparr>user = ''gql-master'', avatarUrl = ''...'', commits = 950,
               loc_changed = 75000\<rparr>,
              \<lparr>user = ''api-architect'', avatarUrl = ''...'', commits = 520,
               loc_changed = 45000\<rparr>]\<rparr>,
         w1)))))))"

section \<open>The running program\<close>






section \<open>Sample inputs\<close>

text \<open>
  A sequence that \<^verbatim>\<open>Math.random\<close> can return, for the examples below: the doubles 0,
  0.7 (the double nearest to it), \<open>1 - 2 ^ -53\<close> (the largest double below 1) and 0.25,
  and so on in a cycle.
\<close>

definition draws_example :: "nat \<Rightarrow> double" where
  "draws_example i =
     (if i mod 4 = 0 then Double 0 0
      else if i mod 4 = 1 then Double 6305039478318694 (- 53)
      else if i mod 4 = 2 then Double 9007199254740991 (- 53)
      else Double 1 (- 2))"

section \<open>Rounding of the product\<close>

lemma bit_length_bounds:
  "0 < n \<Longrightarrow> 2 ^ (bit_length n - 1) \<le> n \<and> n < 2 ^ bit_length n"
proof (induction n rule: bit_length.induct)
  case (1 n)
  show ?case
  proof (cases "n div 2 = 0")
    case True
    with 1(2) have "n = 1"
      by (simp add: div_eq_0_iff)
    then show ?thesis
      by (simp add: bit_length.simps [of "Suc 0"] bit_length.simps [of 0])
  next
    case False
    with 1 have ih: "2 ^ (bit_length (n div 2) - 1) \<le> n div 2"
      "n div 2 < 2 ^ bit_length (n div 2)"
      by simp_all
    have eq: "bit_length n = Suc (bit_length (n div 2))"
      using 1(2) by (simp add: bit_length.simps [of n])
    obtain j where j: "bit_length (n div 2) = Suc j"
      using False by (cases "bit_length (n div 2)") (simp_all add: bit_length.simps [of "n div 2"])
    from ih have "2 * 2 ^ j \<le> 2 * (n div 2)" and "2 * (n div 2) + 1 < 2 * 2 ^ Suc j"
      unfolding j by simp_all
    moreover have "2 * (n div 2) \<le> n" and "n \<le> 2 * (n div 2) + 1"
      by presburger+
    ultimately have "2 ^ Suc j \<le> n" and "n < 2 ^ Suc (Suc j)"
      by simp_all
    then show ?thesis
      unfolding eq j by simp
  qed
qed

text \<open>The digits of a numeral, for evaluation.\<close>

lemma bit_length_numeral:
  "bit_length 0 = 0"
  "bit_length (Suc 0) = Suc 0"
  "bit_length 1 = 1"
  "bit_length (numeral (Num.Bit0 n)) = Suc (bit_length (numeral n))"
  "bit_length (numeral (Num.Bit1 n)) = Suc (bit_length (numeral n))"
proof -
  show zero: "bit_length 0 = 0"
    by (simp add: bit_length.simps [of 0])
  show one: "bit_length (Suc 0) = Suc 0"
    by (simp add: bit_length.simps [of "Suc 0"] zero)
  then show "bit_length 1 = 1"
    by simp
  show "bit_length (numeral (Num.Bit0 n)) = Suc (bit_length (numeral n))"
    by (simp add: bit_length.simps [of "numeral (Num.Bit0 n)"])
  show "bit_length (numeral (Num.Bit1 n)) = Suc (bit_length (numeral n))"
    by (simp add: bit_length.simps [of "numeral (Num.Bit1 n)"])
qed

lemma floor_divide_numeral:
  "\<lfloor>(numeral a :: rat) / numeral b\<rfloor> = numeral a div numeral b"
  using floor_divide_of_int_eq [where ?'a = rat, of "numeral a" "numeral b"] by simp

text \<open>Rounding moves a significand by at most half of the last digit kept.\<close>

lemma round_half_even_error:
  "2 * (round_half_even M s * 2 ^ s) \<le> 2 * M + 2 ^ s"
proof -
  define q where "q = M div 2 ^ s"
  define r where "r = M mod 2 ^ s"
  have M: "M = q * 2 ^ s + r"
    unfolding q_def r_def by (rule div_mult_mod_eq [symmetric])
  show ?thesis
  proof (cases "2 ^ s < 2 * r \<or> (2 * r = 2 ^ s \<and> odd q)")
    case True
    then have "round_half_even M s = q + 1"
      by (simp add: round_half_even_def q_def r_def Let_def)
    moreover from True have "2 ^ s \<le> 2 * r"
      by auto
    ultimately show ?thesis
      unfolding M by (simp add: algebra_simps)
  next
    case False
    then have "round_half_even M s = q"
      by (simp add: round_half_even_def q_def r_def Let_def)
    then show ?thesis
      unfolding M by (simp add: algebra_simps)
  qed
qed

text \<open>Hence the rounded significand exceeds the exact one by a factor of at most \<open>1 + 2 ^ -53\<close>.\<close>

lemma rounded_significand_bound:
  "round_half_even M (bit_length M - 53) * 2 ^ (bit_length M - 53) * 2 ^ 53 \<le> M * (2 ^ 53 + 1)"
proof (cases "bit_length M \<le> 53")
  case True
  then show ?thesis
    by (simp add: round_half_even_def)
next
  case False
  define s where "s = bit_length M - 53"
  define R where "R = round_half_even M s * 2 ^ s"
  define P :: nat where "P = 2 ^ 53"
  define S :: nat where "S = 2 ^ s"
  from False have b: "bit_length M - 1 = 52 + s"
    by (simp add: s_def)
  from False have "0 < M"
    by (cases "M = 0") (simp_all add: bit_length.simps [of 0])
  then have "2 ^ (bit_length M - 1) \<le> M"
    using bit_length_bounds by blast
  then have "2 ^ 52 * 2 ^ s \<le> M"
    unfolding b by (simp only: power_add)
  then have "2 * (2 ^ 52 * 2 ^ s) \<le> 2 * M"
    by simp
  moreover have "2 * (2 ^ 52 * 2 ^ s) = S * P"
    by (simp add: S_def P_def)
  ultimately have 1: "S * P \<le> 2 * M"
    by simp
  have "2 * R \<le> 2 * M + S"
    unfolding R_def S_def by (rule round_half_even_error)
  then have "2 * R * P \<le> (2 * M + S) * P"
    by (rule mult_le_mono1)
  also have "\<dots> = 2 * M * P + S * P"
    by (simp add: algebra_simps)
  also have "\<dots> \<le> 2 * M * P + 2 * M"
    using 1 by simp
  finally have "2 * (R * P) \<le> 2 * (M * (P + 1))"
    by (simp add: algebra_simps)
  then have "R * P \<le> M * (P + 1)"
    by simp
  then show ?thesis
    unfolding R_def P_def s_def .
qed

text \<open>A double below 1 is at most \<open>1 - 2 ^ -53\<close>.\<close>

lemma below_one:
  assumes "m < 2 ^ 53" and "value_of (Double m e) < 1"
  shows "value_of (Double m e) * 2 ^ 53 \<le> 2 ^ 53 - 1"
proof -
  have scale: "value_of (Double m e) * 2 ^ 53 = of_nat m * 2 powi (e + 53)"
    by (simp add: power_int_add)
  show ?thesis
  proof (cases "0 \<le> e + 53")
    case True
    then obtain i where i: "e + 53 = int i"
      using nonneg_int_cases by blast
    have "value_of (Double m e) * 2 ^ 53 < 1 * 2 ^ 53"
      using assms(2) by (intro mult_strict_right_mono) simp_all
    then have "of_nat (m * 2 ^ i) < (of_nat (2 ^ 53) :: rat)"
      unfolding scale i by simp
    then have "m * 2 ^ i < 2 ^ 53"
      by (simp only: of_nat_less_iff)
    then have "m * 2 ^ i + 1 \<le> 2 ^ 53"
      by simp
    then have "of_nat (m * 2 ^ i + 1) \<le> (of_nat (2 ^ 53) :: rat)"
      by (simp only: of_nat_le_iff)
    then show ?thesis
      unfolding scale i by simp
  next
    case False
    then have "e + 53 \<le> - 1"
      by simp
    then have "(2::rat) powi (e + 53) \<le> 2 powi (- 1)"
      by (rule power_int_increasing) simp
    then have "(2::rat) powi (e + 53) \<le> 1 / 2"
      by (simp add: inverse_eq_divide)
    then have "of_nat m * (2::rat) powi (e + 53) \<le> of_nat m * (1 / 2)"
      by (intro mult_left_mono) simp_all
    moreover have "of_nat m < (of_nat (2 ^ 53) :: rat)"
      using assms(1) by (simp only: of_nat_less_iff)
    then have "of_nat m * (1 / 2) \<le> (2 ^ 53 - 1 :: rat)"
      by simp
    ultimately show ?thesis
      unfolding scale by (rule order_trans)
  qed
qed

lemma times_double_value:
  "times_double (Double m e) k =
     of_nat (round_half_even (m * k) (bit_length (m * k) - 53) * 2 ^ (bit_length (m * k) - 53))
       * 2 powi e"
  by (simp add: Let_def power_int_add)

text \<open>
  The rounded product of a double below 1 and \<open>k\<close> stays below \<open>k\<close>: it is at most
  \<open>k * (1 - 2 ^ -53) * (1 + 2 ^ -53)\<close>.
\<close>

lemma times_double_below:
  assumes "m < 2 ^ 53" and "value_of (Double m e) < 1" and "0 < k"
  shows "0 \<le> times_double (Double m e) k \<and> times_double (Double m e) k < of_nat k"
proof -
  define R where
    "R = round_half_even (m * k) (bit_length (m * k) - 53) * 2 ^ (bit_length (m * k) - 53)"
  define p :: rat where "p = 2 powi e"
  have p: "0 < p"
    by (simp add: p_def)
  have t: "times_double (Double m e) k = of_nat R * p"
    unfolding R_def p_def by (rule times_double_value)
  have "R * 2 ^ 53 \<le> m * k * (2 ^ 53 + 1)"
    unfolding R_def by (rule rounded_significand_bound)
  then have "of_nat (R * 2 ^ 53) \<le> (of_nat (m * k * (2 ^ 53 + 1)) :: rat)"
    by (simp only: of_nat_le_iff)
  then have "of_nat R * 2 ^ 53 \<le> (of_nat m * of_nat k * (2 ^ 53 + 1) :: rat)"
    by simp
  then have "of_nat R * 2 ^ 53 * p \<le> of_nat m * of_nat k * (2 ^ 53 + 1) * p"
    using p by (intro mult_right_mono) simp_all
  then have 1: "of_nat R * p * 2 ^ 53 \<le> of_nat k * ((of_nat m * p * 2 ^ 53) * (1 + 1 / 2 ^ 53))"
    by (simp add: algebra_simps)
  have "of_nat m * p * 2 ^ 53 \<le> 2 ^ 53 - 1"
    using below_one [OF assms(1,2)] by (simp add: p_def)
  then have "(of_nat m * p * 2 ^ 53) * (1 + 1 / 2 ^ 53) \<le> (2 ^ 53 - 1) * (1 + 1 / 2 ^ 53)"
    by (intro mult_right_mono) simp_all
  also have "\<dots> < 2 ^ 53"
    by simp
  finally have "of_nat k * ((of_nat m * p * 2 ^ 53) * (1 + 1 / 2 ^ 53)) < of_nat k * 2 ^ 53"
    using assms(3) by (intro mult_strict_left_mono) simp_all
  with 1 have "of_nat R * p * 2 ^ 53 < of_nat k * 2 ^ 53"
    by (rule le_less_trans)
  then have "of_nat R * p < of_nat k"
    by simp
  moreover have "0 \<le> of_nat R * p"
    using p by simp
  ultimately show ?thesis
    unfolding t by simp
qed

lemma Math_floor_below:
  assumes "0 \<le> y" and "y < of_nat k"
  shows "Math_floor y \<in> \<int> \<and> 0 \<le> Math_floor y \<and> Math_floor y < of_nat k"
proof -
  have "of_int \<lfloor>y\<rfloor> \<le> y"
    by (rule of_int_floor_le)
  then have "of_int \<lfloor>y\<rfloor> < (of_nat k :: rat)"
    using assms(2) by (rule le_less_trans)
  with assms(1) show ?thesis
    by (simp add: Math_floor_def)
qed

lemma weekly_bound:
  assumes "\<forall>i. is_double (draws i) \<and> value_of (draws i) < 1" and "0 < k"
  shows "\<forall>x\<in>set (map (\<lambda>i. Math_floor (times_double (draws i) k)) [a..<b]).
           x \<in> \<int> \<and> 0 \<le> x \<and> x < of_nat k"
proof -
  have "Math_floor (times_double (draws i) k) \<in> \<int> \<and>
      0 \<le> Math_floor (times_double (draws i) k) \<and>
      Math_floor (times_double (draws i) k) < of_nat k" for i
  proof (cases "draws i")
    case (Double m e)
    with assms(1) have "m < 2 ^ 53" and "value_of (Double m e) < 1"
      by (metis is_double.simps)+
    then have "0 \<le> times_double (Double m e) k \<and> times_double (Double m e) k < of_nat k"
      using assms(2) by (rule times_double_below)
    then show ?thesis
      unfolding Double by (intro Math_floor_below) simp_all
  qed
  then show ?thesis
    by simp
qed

section \<open>The array constructor and the random callbacks\<close>

text \<open>
  The callbacks of this program draw one number each, so the array made from draw number
  \<open>s\<close> on holds what the callback makes of the draws \<open>s, \<dots>, s + n - 1\<close>.
\<close>

lemma fill_draws:
  "fill n (\<lambda>s. case Math_random draws s of (r, s') \<Rightarrow> (g r, s')) s =
     (map (\<lambda>i. g (draws i)) [s..<s + n], s + n)"
proof (induction n arbitrary: s)
  case 0
  show ?case by simp
next
  case (Suc n)
  have "[s..<s + Suc n] = s # [Suc s..<Suc s + n]"
    by (simp add: upt_conv_Cons)
  with Suc show ?case
    by (simp add: Math_random_def)
qed

lemma Array_from_draws:
  "Array_from len (\<lambda>s. case Math_random draws s of (r, s') \<Rightarrow> (g r, s')) s =
     (if 2 ^ 32 \<le> ToLength len then (Throw RangeError, s)
      else (Normal (map (\<lambda>i. g (draws i)) [s..<s + ToLength len]), s + ToLength len))"
  by (simp add: Array_from_def fill_draws Let_def)

lemma ToLength_of_int:
  assumes "0 < n" and "n < 2 ^ 32"
  shows "ToLength (Finite (of_int n)) = nat n"
proof -
  have "nat n \<le> 2 ^ 53 - 1"
    using assms by simp
  with assms show ?thesis
    by (simp add: trunc_def Let_def)
qed

lemma ToLength_of_int_large:
  assumes "2 ^ 32 \<le> n"
  shows "2 ^ 32 \<le> ToLength (Finite (of_int n))"
proof -
  from assms have "2 ^ 32 \<le> nat n"
    by simp
  with assms show ?thesis
    by (simp add: trunc_def Let_def)
qed

lemma ToLength_le_zero:
  assumes "weeks = NegInfinity \<or> (\<exists>q. weeks = Finite q \<and> q \<le> 0)"
  shows "ToLength weeks = 0"
  using assms by (auto simp: trunc_def Let_def)

text \<open>When the arrays can be made, the promise is fulfilled and the arrays are these.\<close>

lemma fetch_weekly:
  assumes "ToLength weeks < 2 ^ 32"
  shows "\<exists>d. fst (fetchAllDataViaGraphQL draws now owner' repo' weeks w) = Fulfilled d \<and>
    weeklyCommits d =
      map (\<lambda>i. Math_floor (times_double (draws i) 500)) [0..<ToLength weeks] \<and>
    weeklyPrOpened d =
      map (\<lambda>i. Math_floor (times_double (draws i) 80)) [ToLength weeks..<2 * ToLength weeks] \<and>
    weeklyPrMerged d =
      map (\<lambda>i. Math_floor (times_double (draws i) 60)) [2 * ToLength weeks..<3 * ToLength weeks] \<and>
    weeklyAdditions d =
      map (\<lambda>i. Math_floor (times_double (draws i) 5000)) [3 * ToLength weeks..<4 * ToLength weeks] \<and>
    weeklyDeletions d =
      map (\<lambda>i. Math_floor (times_double (draws i) 2000)) [4 * ToLength weeks..<5 * ToLength weeks]"
proof -
  define n where "n = ToLength weeks"
  have sums: "n + n = 2 * n" "n + n + n = 3 * n" "n + n + n + n = 4 * n"
    "n + n + n + n + n = 5 * n"
    by simp_all
  from assms show ?thesis
    unfolding n_def [symmetric]
    by (simp add: fetchAllDataViaGraphQL_def Array_from_draws Let_def sums n_def [symmetric]
        del: ToLength.simps times_double.simps)
qed

lemma fetch_weekly_part_000:
  assumes "ToLength weeks < 2 ^ 32"
  shows "\<exists>d. fst (fetchAllDataViaGraphQL_part_000 draws owner' repo' weeks w) = Fulfilled d \<and>
    ProjectData_part_000.weeklyCommits d =
      map (\<lambda>i. Math_floor (times_double (draws i) 500)) [0..<ToLength weeks] \<and>
    ProjectData_part_000.weeklyPrOpened d =
      map (\<lambda>i. Math_floor (times_double (draws i) 80)) [ToLength weeks..<2 * ToLength weeks] \<and>
    ProjectData_part_000.weeklyPrMerged d =
      map (\<lambda>i. Math_floor (times_double (draws i) 60)) [2 * ToLength weeks..<3 * ToLength weeks] \<and>
    ProjectData_part_000.weeklyAdditions d =
      map (\<lambda>i. Math_floor (times_double (draws i) 5000)) [3 * ToLength weeks..<4 * ToLength weeks] \<and>
    ProjectData_part_000.weeklyDeletions d =
      map (\<lambda>i. Math_floor (times_double (draws i) 2000)) [4 * ToLength weeks..<5 * ToLength weeks]"
proof -
  define n where "n = ToLength weeks"
  have sums: "n + n = 2 * n" "n + n + n = 3 * n" "n + n + n + n = 4 * n"
    "n + n + n + n + n = 5 * n"
    by simp_all
  from assms show ?thesis
    unfolding n_def [symmetric]
    by (simp add: fetchAllDataViaGraphQL_part_000_def Array_from_draws Let_def sums
        n_def [symmetric] del: ToLength.simps times_double.simps)
qed

text \<open>When an array cannot be made, the promise is rejected, in both revisions.\<close>

lemma fetch_rejected:
  assumes "2 ^ 32 \<le> ToLength weeks"
  shows "fst (fetchAllDataViaGraphQL draws now owner' repo' weeks w) = Rejected RangeError"
    and "fst (fetchAllDataViaGraphQL_part_000 draws owner' repo' weeks w') = Rejected RangeError"
  using assms
  by (simp_all add: fetchAllDataViaGraphQL_def fetchAllDataViaGraphQL_part_000_def
      Array_from_draws Let_def del: ToLength.simps)



section \<open>Length of the weekly sequences\<close>

text \<open>
  C1, as amended. For every positive integer \<open>n\<close>, all strings owner and repo, every
  sequence of random draws and every world: whenever
  \<^verbatim>\<open>fetchAllDataViaGraphQL(owner, repo, n)\<close> returns a ProjectData, its five weekly
  sequences all have length exactly \<open>n\<close>; and from \<open>n = 2 ^ 32\<close> on it returns none, the
  promise is rejected with a RangeError. This holds in both revisions. Whether a host
  with limited memory returns for a large \<open>n\<close> below \<open>2 ^ 32\<close> is not stated.
\<close>

theorem weekly_sequences_have_requested_length:
  fixes n :: int
    and w :: "(ProjectData, ComparisonKey) World"
    and w' :: "(ProjectData_part_000, ComparisonKey_part_000) World"
  assumes "0 < n"
  shows "(\<forall>d. fst (fetchAllDataViaGraphQL draws now owner' repo' (Finite (of_int n)) w)
                = Fulfilled d \<longrightarrow>
              int (length (weeklyCommits d)) = n \<and>
              int (length (weeklyPrOpened d)) = n \<and>
              int (length (weeklyPrMerged d)) = n \<and>
              int (length (weeklyAdditions d)) = n \<and>
              int (length (weeklyDeletions d)) = n) \<and>
         (2 ^ 32 \<le> n \<longrightarrow>
            fst (fetchAllDataViaGraphQL draws now owner' repo' (Finite (of_int n)) w)
              = Rejected RangeError) \<and>
         (\<forall>d. fst (fetchAllDataViaGraphQL_part_000 draws owner' repo' (Finite (of_int n)) w')
                = Fulfilled d \<longrightarrow>
              int (length (ProjectData_part_000.weeklyCommits d)) = n \<and>
              int (length (ProjectData_part_000.weeklyPrOpened d)) = n \<and>
              int (length (ProjectData_part_000.weeklyPrMerged d)) = n \<and>
              int (length (ProjectData_part_000.weeklyAdditions d)) = n \<and>
              int (length (ProjectData_part_000.weeklyDeletions d)) = n) \<and>
         (2 ^ 32 \<le> n \<longrightarrow>
            fst (fetchAllDataViaGraphQL_part_000 draws owner' repo' (Finite (of_int n)) w')
              = Rejected RangeError)"
proof (cases "n < 2 ^ 32")
  case True
  have len: "ToLength (Finite (of_int n)) = nat n"
    using assms True by (rule ToLength_of_int)
  have small: "ToLength (Finite (of_int n)) < 2 ^ 32"
    using assms True by (simp add: len del: ToLength.simps)
  from fetch_weekly [OF small, where draws = draws and now = now and owner' = owner'
      and repo' = repo' and w = w]
  obtain d where "fst (fetchAllDataViaGraphQL draws now owner' repo' (Finite (of_int n)) w)
      = Fulfilled d"
    and "int (length (weeklyCommits d)) = n"
    and "int (length (weeklyPrOpened d)) = n"
    and "int (length (weeklyPrMerged d)) = n"
    and "int (length (weeklyAdditions d)) = n"
    and "int (length (weeklyDeletions d)) = n"
    using assms unfolding len by fastforce
  moreover
  from fetch_weekly_part_000 [OF small, where draws = draws and owner' = owner'
      and repo' = repo' and w = w']
  obtain e where "fst (fetchAllDataViaGraphQL_part_000 draws owner' repo' (Finite (of_int n)) w')
      = Fulfilled e"
    and "int (length (ProjectData_part_000.weeklyCommits e)) = n"
    and "int (length (ProjectData_part_000.weeklyPrOpened e)) = n"
    and "int (length (ProjectData_part_000.weeklyPrMerged e)) = n"
    and "int (length (ProjectData_part_000.weeklyAdditions e)) = n"
    and "int (length (ProjectData_part_000.weeklyDeletions e)) = n"
    using assms unfolding len by fastforce
  ultimately show ?thesis
    using True by simp
next
  case False
  then have "2 ^ 32 \<le> n"
    by simp
  then have "2 ^ 32 \<le> ToLength (Finite (of_int n))"
    by (rule ToLength_of_int_large)
  from fetch_rejected(1) [OF this, where draws = draws and now = now and owner' = owner'
      and repo' = repo' and w = w]
    fetch_rejected(2) [OF this, where draws = draws and owner' = owner'
      and repo' = repo' and w' = w']
  show ?thesis
    by simp
qed

text \<open>
  The scenario of the specification, twelve weeks, where a ProjectData is returned, and
  the first length that is rejected.
\<close>

theorem weekly_sequences_have_requested_length_witness:
  "(0::int) < 12 \<and>
   (\<exists>d. fst (fetchAllDataViaGraphQL draws_example 0 ''octocat'' ''hello-world'' (Finite 12) loaded)
          = Fulfilled d \<and>
        int (length (weeklyCommits d)) = 12 \<and>
        int (length (weeklyPrOpened d)) = 12 \<and>
        int (length (weeklyPrMerged d)) = 12 \<and>
        int (length (weeklyAdditions d)) = 12 \<and>
        int (length (weeklyDeletions d)) = 12) \<and>
   (\<exists>d. fst (fetchAllDataViaGraphQL_part_000 draws_example ''octocat'' ''hello-world'' (Finite 12)
            loaded_part_000)
          = Fulfilled d \<and>
        int (length (ProjectData_part_000.weeklyCommits d)) = 12 \<and>
        int (length (ProjectData_part_000.weeklyPrOpened d)) = 12 \<and>
        int (length (ProjectData_part_000.weeklyPrMerged d)) = 12 \<and>
        int (length (ProjectData_part_000.weeklyAdditions d)) = 12 \<and>
        int (length (ProjectData_part_000.weeklyDeletions d)) = 12) \<and>
   (0::int) < 4294967296 \<and> (2::int) ^ 32 \<le> 4294967296 \<and>
   fst (fetchAllDataViaGraphQL draws_example 0 ''octocat'' ''hello-world'' (Finite 4294967296) loaded)
     = Rejected RangeError \<and>
   fst (fetchAllDataViaGraphQL_part_000 draws_example ''octocat'' ''hello-world''
          (Finite 4294967296) loaded_part_000)
     = Rejected RangeError"
proof -
  have a: "(0::int) < 12" and b: "(0::int) < 4294967296" and c: "(2::int) ^ 32 \<le> 4294967296"
    by simp_all
  have "ToLength (Finite 12) < 2 ^ 32"
    by (simp add: trunc_def Let_def)
  from fetch_weekly [OF this, where draws = draws_example and now = 0
      and owner' = "''octocat''" and repo' = "''hello-world''" and w = loaded]
    fetch_weekly_part_000 [OF this, where draws = draws_example
      and owner' = "''octocat''" and repo' = "''hello-world''" and w = loaded_part_000]
  obtain d e
    where d: "fst (fetchAllDataViaGraphQL draws_example 0 ''octocat'' ''hello-world''
        (Finite 12) loaded) = Fulfilled d"
      and e: "fst (fetchAllDataViaGraphQL_part_000 draws_example ''octocat'' ''hello-world''
        (Finite 12) loaded_part_000) = Fulfilled e"
    by blast
  note small = weekly_sequences_have_requested_length [OF a, where draws = draws_example
      and now = 0 and owner' = "''octocat''" and repo' = "''hello-world''" and w = loaded
      and w' = loaded_part_000]
  note large = weekly_sequences_have_requested_length [OF b, where draws = draws_example
      and now = 0 and owner' = "''octocat''" and repo' = "''hello-world''" and w = loaded
      and w' = loaded_part_000]
  have "\<exists>d. fst (fetchAllDataViaGraphQL draws_example 0 ''octocat'' ''hello-world''
        (Finite 12) loaded) = Fulfilled d \<and>
      int (length (weeklyCommits d)) = 12 \<and>
      int (length (weeklyPrOpened d)) = 12 \<and>
      int (length (weeklyPrMerged d)) = 12 \<and>
      int (length (weeklyAdditions d)) = 12 \<and>
      int (length (weeklyDeletions d)) = 12"
    using small d by (intro exI [of _ d]) simp
  moreover
  have "\<exists>d. fst (fetchAllDataViaGraphQL_part_000 draws_example ''octocat'' ''hello-world''
        (Finite 12) loaded_part_000) = Fulfilled d \<and>
      int (length (ProjectData_part_000.weeklyCommits d)) = 12 \<and>
      int (length (ProjectData_part_000.weeklyPrOpened d)) = 12 \<and>
      int (length (ProjectData_part_000.weeklyPrMerged d)) = 12 \<and>
      int (length (ProjectData_part_000.weeklyAdditions d)) = 12 \<and>
      int (length (ProjectData_part_000.weeklyDeletions d)) = 12"
    using small e by (intro exI [of _ e]) simp
  moreover
  have "fst (fetchAllDataViaGraphQL draws_example 0 ''octocat'' ''hello-world''
        (Finite 4294967296) loaded) = Rejected RangeError"
    and "fst (fetchAllDataViaGraphQL_part_000 draws_example ''octocat'' ''hello-world''
        (Finite 4294967296) loaded_part_000) = Rejected RangeError"
    using large c by simp_all
  ultimately show ?thesis
    using a b c by simp
qed

text \<open>
  C1 as stated, for every positive integer, fails at \<open>n = 2 ^ 32 = 4294967296\<close>: the array
  constructor throws, the promise is rejected and no ProjectData is returned.
\<close>

theorem weekly_sequences_rejected_at_2_32:
  "fst (fetchAllDataViaGraphQL draws_example 0 ''octocat'' ''hello-world'' (Finite 4294967296) loaded)
     = Rejected RangeError \<and>
   fst (fetchAllDataViaGraphQL_part_000 draws_example ''octocat'' ''hello-world''
          (Finite 4294967296) loaded_part_000)
     = Rejected RangeError"
  by (simp add: fetchAllDataViaGraphQL_def fetchAllDataViaGraphQL_part_000_def
      Array_from_def trunc_def Let_def)

text \<open>
  C10. For every weeks value less than or equal to 0, finite or \<open>-\<infinity>\<close>, integral or not,
  \<^verbatim>\<open>fetchAllDataViaGraphQL\<close> does not reject: the promise is fulfilled with a ProjectData
  whose five weekly sequences are all empty. This holds in both revisions.
\<close>

theorem nonpositive_weeks_give_empty_sequences:
  fixes w :: "(ProjectData, ComparisonKey) World"
    and w' :: "(ProjectData_part_000, ComparisonKey_part_000) World"
  assumes "weeks = NegInfinity \<or> (\<exists>q. weeks = Finite q \<and> q \<le> 0)"
  shows "(\<exists>d. fst (fetchAllDataViaGraphQL draws now owner' repo' weeks w) = Fulfilled d \<and>
              weeklyCommits d = [] \<and> weeklyPrOpened d = [] \<and> weeklyPrMerged d = [] \<and>
              weeklyAdditions d = [] \<and> weeklyDeletions d = []) \<and>
         (\<exists>d. fst (fetchAllDataViaGraphQL_part_000 draws owner' repo' weeks w') = Fulfilled d \<and>
              ProjectData_part_000.weeklyCommits d = [] \<and>
              ProjectData_part_000.weeklyPrOpened d = [] \<and>
              ProjectData_part_000.weeklyPrMerged d = [] \<and>
              ProjectData_part_000.weeklyAdditions d = [] \<and>
              ProjectData_part_000.weeklyDeletions d = [])"
proof -
  have len: "ToLength weeks = 0"
    using assms by (rule ToLength_le_zero)
  then have small: "ToLength weeks < 2 ^ 32"
    by simp
  from fetch_weekly [OF small, of draws now owner' repo' w]
    fetch_weekly_part_000 [OF small, of draws owner' repo' w']
  show ?thesis
    unfolding len by simp
qed

theorem nonpositive_weeks_give_empty_sequences_witness:
  "(Finite (- 3) = NegInfinity \<or> (\<exists>q. Finite (- 3) = Finite q \<and> q \<le> 0)) \<and>
   (\<exists>d. fst (fetchAllDataViaGraphQL draws_example 0 ''octocat'' ''hello-world'' (Finite (- 3)) loaded)
          = Fulfilled d \<and>
        weeklyCommits d = [] \<and> weeklyPrOpened d = [] \<and> weeklyPrMerged d = [] \<and>
        weeklyAdditions d = [] \<and> weeklyDeletions d = []) \<and>
   (\<exists>d. fst (fetchAllDataViaGraphQL_part_000 draws_example ''octocat'' ''hello-world''
            (Finite (- 3)) loaded_part_000)
          = Fulfilled d \<and>
        ProjectData_part_000.weeklyCommits d = [] \<and>
        ProjectData_part_000.weeklyPrOpened d = [] \<and>
        ProjectData_part_000.weeklyPrMerged d = [] \<and>
        ProjectData_part_000.weeklyAdditions d = [] \<and>
        ProjectData_part_000.weeklyDeletions d = [])"
proof -
  have a: "Finite (- 3) = NegInfinity \<or> (\<exists>q. Finite (- 3) = Finite q \<and> q \<le> 0)"
    by simp
  from a nonpositive_weeks_give_empty_sequences [OF a, where draws = draws_example and now = 0
      and owner' = "''octocat''" and repo' = "''hello-world''" and w = loaded
      and w' = loaded_part_000]
  show ?thesis
    by (rule conjI)
qed

section \<open>The comparison view\<close>

text \<open>
  C2. In every state in which \<^verbatim>\<open>repoA\<close> is null or \<^verbatim>\<open>repoB\<close> is null,
  \<^verbatim>\<open>renderComparisonChart(key)\<close> returns normally for every key and leaves the world as
  it is: nothing is drawn or logged and no error is raised. The function is the same in
  both revisions.
\<close>

theorem renderComparisonChart_skips_without_both_snapshots:
  assumes "repoA (comparisonState w) = None \<or> repoB (comparisonState w) = None"
  shows "renderComparisonChart key w = (Normal (), w)"
  using assms by (simp add: renderComparisonChart_def)

theorem renderComparisonChart_skips_without_both_snapshots_witness:
  "(repoA (comparisonState loaded) = None \<or> repoB (comparisonState loaded) = None) \<and>
   renderComparisonChart ''weeklyCommits'' loaded = (Normal (), loaded) \<and>
   (repoA (comparisonState loaded_part_000) = None \<or>
    repoB (comparisonState loaded_part_000) = None) \<and>
   renderComparisonChart ''weeklyCommits'' loaded_part_000 = (Normal (), loaded_part_000)"
proof -
  have a: "repoA (comparisonState loaded) = None \<or> repoB (comparisonState loaded) = None"
    by (simp add: loaded_def comparisonState_init_def)
  have b: "repoA (comparisonState loaded_part_000) = None \<or>
      repoB (comparisonState loaded_part_000) = None"
    by (simp add: loaded_part_000_def comparisonState_init_part_000_def)
  from a b
    renderComparisonChart_skips_without_both_snapshots [OF a, of "''weeklyCommits''"]
    renderComparisonChart_skips_without_both_snapshots [OF b, of "''weeklyCommits''"]
  show ?thesis
    by simp
qed

text \<open>With both snapshots present the function does act: it writes its line.\<close>

lemma renderComparisonChart_renders:
  assumes "repoA (comparisonState w) = Some a" and "repoB (comparisonState w) = Some b"
  shows "renderComparisonChart key w =
           (Normal (), w\<lparr>console := console w @ [RenderingComparisonChart key]\<rparr>)"
  using assms by (simp add: renderComparisonChart_def console_log_def)




section \<open>Values of the weekly sequences\<close>

text \<open>
  C4. Whatever \<^verbatim>\<open>Math.random\<close> returns, doubles from 0 up to but not including 1, and
  for every owner, repo and weeks: each element of the weekly sequences of a returned
  ProjectData is a non-negative integer below the bound of its series, 500 for commits,
  80 for opened and 60 for merged pull requests, 5000 for additions and 2000 for
  deletions. The elements are the rounded products of the language, rounded down. The
  call returns a ProjectData unless the arrays are too long to be made. This holds in
  both revisions.
\<close>

theorem weekly_values_within_their_bounds:
  fixes w :: "(ProjectData, ComparisonKey) World"
    and w' :: "(ProjectData_part_000, ComparisonKey_part_000) World"
  assumes "\<forall>i. is_double (draws i) \<and> value_of (draws i) < 1"
  shows "(case fst (fetchAllDataViaGraphQL draws now owner' repo' weeks w) of
            Rejected e \<Rightarrow> 2 ^ 32 \<le> ToLength weeks
          | Fulfilled d \<Rightarrow>
              (\<forall>x\<in>set (weeklyCommits d). x \<in> \<int> \<and> 0 \<le> x \<and> x < 500) \<and>
              (\<forall>x\<in>set (weeklyPrOpened d). x \<in> \<int> \<and> 0 \<le> x \<and> x < 80) \<and>
              (\<forall>x\<in>set (weeklyPrMerged d). x \<in> \<int> \<and> 0 \<le> x \<and> x < 60) \<and>
              (\<forall>x\<in>set (weeklyAdditions d). x \<in> \<int> \<and> 0 \<le> x \<and> x < 5000) \<and>
              (\<forall>x\<in>set (weeklyDeletions d). x \<in> \<int> \<and> 0 \<le> x \<and> x < 2000)) \<and>
         (case fst (fetchAllDataViaGraphQL_part_000 draws owner' repo' weeks w') of
            Rejected e \<Rightarrow> 2 ^ 32 \<le> ToLength weeks
          | Fulfilled d \<Rightarrow>
              (\<forall>x\<in>set (ProjectData_part_000.weeklyCommits d). x \<in> \<int> \<and> 0 \<le> x \<and> x < 500) \<and>
              (\<forall>x\<in>set (ProjectData_part_000.weeklyPrOpened d). x \<in> \<int> \<and> 0 \<le> x \<and> x < 80) \<and>
              (\<forall>x\<in>set (ProjectData_part_000.weeklyPrMerged d). x \<in> \<int> \<and> 0 \<le> x \<and> x < 60) \<and>
              (\<forall>x\<in>set (ProjectData_part_000.weeklyAdditions d). x \<in> \<int> \<and> 0 \<le> x \<and> x < 5000) \<and>
              (\<forall>x\<in>set (ProjectData_part_000.weeklyDeletions d). x \<in> \<int> \<and> 0 \<le> x \<and> x < 2000))"
proof (cases "2 ^ 32 \<le> ToLength weeks")
  case True
  then show ?thesis
    by (simp add: fetch_rejected del: ToLength.simps)
next
  case False
  then have small: "ToLength weeks < 2 ^ 32"
    by simp
  have b: "\<forall>x\<in>set (map (\<lambda>i. Math_floor (times_double (draws i) k)) [a..<c]).
      x \<in> \<int> \<and> 0 \<le> x \<and> x < of_nat k"
    if "0 < k" for k a c
    using assms that by (rule weekly_bound)
  from fetch_weekly [OF small, where draws = draws and now = now and owner' = owner'
      and repo' = repo' and w = w]
    fetch_weekly_part_000 [OF small, where draws = draws and owner' = owner'
      and repo' = repo' and w = w']
  show ?thesis
    using b [of 500] b [of 80] b [of 60] b [of 5000] b [of 2000]
    by (auto simp del: ToLength.simps set_map set_upt times_double.simps)
qed

text \<open>
  Three weeks with the sample draws: the fifteen numbers that come out, and their
  bounds. The draw 0.7 gives 350 commits, as the rounded product does, where the exact
  product would give 349; the largest draw gives 499.
\<close>

theorem weekly_values_within_their_bounds_witness:
  "(\<forall>i. is_double (draws_example i) \<and> value_of (draws_example i) < 1) \<and>
   (\<exists>d. fst (fetchAllDataViaGraphQL draws_example 0 ''octocat'' ''hello-world'' (Finite 3) loaded)
          = Fulfilled d \<and>
        weeklyCommits d = [0, 350, 499] \<and>
        weeklyPrOpened d = [20, 0, 56] \<and>
        weeklyPrMerged d = [59, 15, 0] \<and>
        weeklyAdditions d = [3500, 4999, 1250] \<and>
        weeklyDeletions d = [0, 1400, 1999] \<and>
        list_all (\<lambda>x. x \<in> \<int> \<and> 0 \<le> x \<and> x < 500) (weeklyCommits d) \<and>
        list_all (\<lambda>x. x \<in> \<int> \<and> 0 \<le> x \<and> x < 80) (weeklyPrOpened d) \<and>
        list_all (\<lambda>x. x \<in> \<int> \<and> 0 \<le> x \<and> x < 60) (weeklyPrMerged d) \<and>
        list_all (\<lambda>x. x \<in> \<int> \<and> 0 \<le> x \<and> x < 5000) (weeklyAdditions d) \<and>
        list_all (\<lambda>x. x \<in> \<int> \<and> 0 \<le> x \<and> x < 2000) (weeklyDeletions d)) \<and>
   (\<exists>d. fst (fetchAllDataViaGraphQL_part_000 draws_example ''octocat'' ''hello-world'' (Finite 3)
            loaded_part_000)
          = Fulfilled d \<and>
        ProjectData_part_000.weeklyCommits d = [0, 350, 499] \<and>
        ProjectData_part_000.weeklyPrOpened d = [20, 0, 56] \<and>
        ProjectData_part_000.weeklyPrMerged d = [59, 15, 0] \<and>
        ProjectData_part_000.weeklyAdditions d = [3500, 4999, 1250] \<and>
        ProjectData_part_000.weeklyDeletions d = [0, 1400, 1999] \<and>
        list_all (\<lambda>x. x \<in> \<int> \<and> 0 \<le> x \<and> x < 500) (ProjectData_part_000.weeklyCommits d) \<and>
        list_all (\<lambda>x. x \<in> \<int> \<and> 0 \<le> x \<and> x < 80) (ProjectData_part_000.weeklyPrOpened d) \<and>
        list_all (\<lambda>x. x \<in> \<int> \<and> 0 \<le> x \<and> x < 60) (ProjectData_part_000.weeklyPrMerged d) \<and>
        list_all (\<lambda>x. x \<in> \<int> \<and> 0 \<le> x \<and> x < 5000) (ProjectData_part_000.weeklyAdditions d) \<and>
        list_all (\<lambda>x. x \<in> \<int> \<and> 0 \<le> x \<and> x < 2000) (ProjectData_part_000.weeklyDeletions d))"
proof -
  have h: "\<forall>i. is_double (draws_example i) \<and> value_of (draws_example i) < 1"
    by (simp add: draws_example_def)
  have len: "ToLength (Finite 3) = 3"
    by (simp add: trunc_def Let_def)
  then have small: "ToLength (Finite 3) < 2 ^ 32"
    by simp
  from fetch_weekly [where weeks = "Finite 3" and draws = draws_example and now = 0
      and owner' = "''octocat''" and repo' = "''hello-world''" and w = loaded, OF small]
  obtain d where d: "fst (fetchAllDataViaGraphQL draws_example 0 ''octocat'' ''hello-world''
      (Finite 3) loaded) = Fulfilled d"
    and v: "weeklyCommits d = [0, 350, 499]"
      "weeklyPrOpened d = [20, 0, 56]"
      "weeklyPrMerged d = [59, 15, 0]"
      "weeklyAdditions d = [3500, 4999, 1250]"
      "weeklyDeletions d = [0, 1400, 1999]"
    unfolding len
    by (auto simp add: draws_example_def Math_floor_def upt_conv_Cons bit_length_numeral
        round_half_even_def Let_def floor_divide_numeral)
  from fetch_weekly_part_000 [where weeks = "Finite 3" and draws = draws_example
      and owner' = "''octocat''" and repo' = "''hello-world''" and w = loaded_part_000, OF small]
  obtain e where e: "fst (fetchAllDataViaGraphQL_part_000 draws_example ''octocat''
      ''hello-world'' (Finite 3) loaded_part_000) = Fulfilled e"
    and u: "ProjectData_part_000.weeklyCommits e = [0, 350, 499]"
      "ProjectData_part_000.weeklyPrOpened e = [20, 0, 56]"
      "ProjectData_part_000.weeklyPrMerged e = [59, 15, 0]"
      "ProjectData_part_000.weeklyAdditions e = [3500, 4999, 1250]"
      "ProjectData_part_000.weeklyDeletions e = [0, 1400, 1999]"
    unfolding len
    by (auto simp add: draws_example_def Math_floor_def upt_conv_Cons bit_length_numeral
        round_half_even_def Let_def floor_divide_numeral)
  note t = weekly_values_within_their_bounds [OF h, where now = 0 and owner' = "''octocat''"
      and repo' = "''hello-world''" and weeks = "Finite 3" and w = loaded
      and w' = loaded_part_000]
  have b: "list_all (\<lambda>x. x \<in> \<int> \<and> 0 \<le> x \<and> x < 500) (weeklyCommits d)"
    "list_all (\<lambda>x. x \<in> \<int> \<and> 0 \<le> x \<and> x < 80) (weeklyPrOpened d)"
    "list_all (\<lambda>x. x \<in> \<int> \<and> 0 \<le> x \<and> x < 60) (weeklyPrMerged d)"
    "list_all (\<lambda>x. x \<in> \<int> \<and> 0 \<le> x \<and> x < 5000) (weeklyAdditions d)"
    "list_all (\<lambda>x. x \<in> \<int> \<and> 0 \<le> x \<and> x < 2000) (weeklyDeletions d)"
    "list_all (\<lambda>x. x \<in> \<int> \<and> 0 \<le> x \<and> x < 500) (ProjectData_part_000.weeklyCommits e)"
    "list_all (\<lambda>x. x \<in> \<int> \<and> 0 \<le> x \<and> x < 80) (ProjectData_part_000.weeklyPrOpened e)"
    "list_all (\<lambda>x. x \<in> \<int> \<and> 0 \<le> x \<and> x < 60) (ProjectData_part_000.weeklyPrMerged e)"
    "list_all (\<lambda>x. x \<in> \<int> \<and> 0 \<le> x \<and> x < 5000) (ProjectData_part_000.weeklyAdditions e)"
    "list_all (\<lambda>x. x \<in> \<int> \<and> 0 \<le> x \<and> x < 2000) (ProjectData_part_000.weeklyDeletions e)"
    using t unfolding d e list_all_iff by simp_all
  have "\<exists>d. fst (fetchAllDataViaGraphQL draws_example 0 ''octocat'' ''hello-world''
        (Finite 3) loaded) = Fulfilled d \<and>
      weeklyCommits d = [0, 350, 499] \<and>
      weeklyPrOpened d = [20, 0, 56] \<and>
      weeklyPrMerged d = [59, 15, 0] \<and>
      weeklyAdditions d = [3500, 4999, 1250] \<and>
      weeklyDeletions d = [0, 1400, 1999] \<and>
      list_all (\<lambda>x. x \<in> \<int> \<and> 0 \<le> x \<and> x < 500) (weeklyCommits d) \<and>
      list_all (\<lambda>x. x \<in> \<int> \<and> 0 \<le> x \<and> x < 80) (weeklyPrOpened d) \<and>
      list_all (\<lambda>x. x \<in> \<int> \<and> 0 \<le> x \<and> x < 60) (weeklyPrMerged d) \<and>
      list_all (\<lambda>x. x \<in> \<int> \<and> 0 \<le> x \<and> x < 5000) (weeklyAdditions d) \<and>
      list_all (\<lambda>x. x \<in> \<int> \<and> 0 \<le> x \<and> x < 2000) (weeklyDeletions d)"
    using d v b(1-5) by (intro exI [of _ d] conjI)
  moreover
  have "\<exists>d. fst (fetchAllDataViaGraphQL_part_000 draws_example ''octocat'' ''hello-world''
        (Finite 3) loaded_part_000) = Fulfilled d \<and>
      ProjectData_part_000.weeklyCommits d = [0, 350, 499] \<and>
      ProjectData_part_000.weeklyPrOpened d = [20, 0, 56] \<and>
      ProjectData_part_000.weeklyPrMerged d = [59, 15, 0] \<and>
      ProjectData_part_000.weeklyAdditions d = [3500, 4999, 1250] \<and>
      ProjectData_part_000.weeklyDeletions d = [0, 1400, 1999] \<and>
      list_all (\<lambda>x. x \<in> \<int> \<and> 0 \<le> x \<and> x < 500) (ProjectData_part_000.weeklyCommits d) \<and>
      list_all (\<lambda>x. x \<in> \<int> \<and> 0 \<le> x \<and> x < 80) (ProjectData_part_000.weeklyPrOpened d) \<and>
      list_all (\<lambda>x. x \<in> \<int> \<and> 0 \<le> x \<and> x < 60) (ProjectData_part_000.weeklyPrMerged d) \<and>
      list_all (\<lambda>x. x \<in> \<int> \<and> 0 \<le> x \<and> x < 5000) (ProjectData_part_000.weeklyAdditions d) \<and>
      list_all (\<lambda>x. x \<in> \<int> \<and> 0 \<le> x \<and> x < 2000) (ProjectData_part_000.weeklyDeletions d)"
    using e u b(6-10) by (intro exI [of _ e] conjI)
  ultimately show ?thesis
    using h by (intro conjI)
qed

section \<open>The fixed part of a snapshot\<close>

text \<open>
  C5. For all strings owner and repo, the ProjectData returned by
  \<^verbatim>\<open>fetchAllDataViaGraphQL(owner, repo, weeks)\<close> has \<^verbatim>\<open>fullName\<close> equal to owner, a
  slash and repo; the call returns one unless the arrays are too long to be made. In
  particular the call with \<^verbatim>\<open>"octocat"\<close>, \<^verbatim>\<open>"hello-world"\<close> and 12 returns a ProjectData
  with \<^verbatim>\<open>fullName\<close> \<^verbatim>\<open>"octocat/hello-world"\<close> and twelve weekly commit counts. This holds
  in both revisions.
\<close>

theorem fullName_is_owner_slash_repo:
  fixes w :: "(ProjectData, ComparisonKey) World"
    and w' :: "(ProjectData_part_000, ComparisonKey_part_000) World"
  shows "(case fst (fetchAllDataViaGraphQL draws now owner' repo' weeks w) of
            Rejected e \<Rightarrow> 2 ^ 32 \<le> ToLength weeks
          | Fulfilled d \<Rightarrow> fullName d = owner' @ ''/'' @ repo') \<and>
         (\<exists>d. fst (fetchAllDataViaGraphQL draws now ''octocat'' ''hello-world'' (Finite 12) w)
                = Fulfilled d \<and>
              fullName d = ''octocat/hello-world'' \<and> length (weeklyCommits d) = 12) \<and>
         (case fst (fetchAllDataViaGraphQL_part_000 draws owner' repo' weeks w') of
            Rejected e \<Rightarrow> 2 ^ 32 \<le> ToLength weeks
          | Fulfilled d \<Rightarrow> ProjectData_part_000.fullName d = owner' @ ''/'' @ repo') \<and>
         (\<exists>d. fst (fetchAllDataViaGraphQL_part_000 draws ''octocat'' ''hello-world'' (Finite 12) w')
                = Fulfilled d \<and>
              ProjectData_part_000.fullName d = ''octocat/hello-world'' \<and>
              length (ProjectData_part_000.weeklyCommits d) = 12)"
proof -
  have len: "ToLength (Finite 12) = 12"
    by (simp add: trunc_def Let_def)
  have "case fst (fetchAllDataViaGraphQL draws now owner' repo' weeks w) of
          Rejected e \<Rightarrow> 2 ^ 32 \<le> ToLength weeks
        | Fulfilled d \<Rightarrow> fullName d = owner' @ ''/'' @ repo'"
    by (simp add: fetchAllDataViaGraphQL_def Array_from_draws Let_def del: ToLength.simps)
  moreover
  have "case fst (fetchAllDataViaGraphQL_part_000 draws owner' repo' weeks w') of
          Rejected e \<Rightarrow> 2 ^ 32 \<le> ToLength weeks
        | Fulfilled d \<Rightarrow> ProjectData_part_000.fullName d = owner' @ ''/'' @ repo'"
    by (simp add: fetchAllDataViaGraphQL_part_000_def Array_from_draws Let_def
        del: ToLength.simps)
  moreover
  have "\<exists>d. fst (fetchAllDataViaGraphQL draws now ''octocat'' ''hello-world'' (Finite 12) w)
            = Fulfilled d \<and>
          fullName d = ''octocat/hello-world'' \<and> length (weeklyCommits d) = 12"
    by (simp add: fetchAllDataViaGraphQL_def Array_from_draws len Let_def del: ToLength.simps)
  moreover
  have "\<exists>d. fst (fetchAllDataViaGraphQL_part_000 draws ''octocat'' ''hello-world'' (Finite 12) w')
            = Fulfilled d \<and>
          ProjectData_part_000.fullName d = ''octocat/hello-world'' \<and>
          length (ProjectData_part_000.weeklyCommits d) = 12"
    by (simp add: fetchAllDataViaGraphQL_part_000_def Array_from_draws len Let_def
        del: ToLength.simps)
  ultimately show ?thesis
    by blast
qed

text \<open>
  C6. In every ProjectData produced by \<^verbatim>\<open>fetchAllDataViaGraphQL\<close> of \<^verbatim>\<open>finalUI.ts\<close>,
  \<^verbatim>\<open>apiStatus.isRateLimited\<close> is true if and only if \<^verbatim>\<open>apiStatus.rateLimitRemaining\<close>
  equals 0; one is produced unless the arrays are too long to be made.
\<close>

theorem isRateLimited_iff_nothing_remaining:
  fixes w :: "(ProjectData, ComparisonKey) World"
  shows "case fst (fetchAllDataViaGraphQL draws now owner' repo' weeks w) of
           Rejected e \<Rightarrow> 2 ^ 32 \<le> ToLength weeks
         | Fulfilled d \<Rightarrow>
             isRateLimited (apiStatus d) \<longleftrightarrow> rateLimitRemaining (apiStatus d) = 0"
  by (simp add: fetchAllDataViaGraphQL_def Array_from_draws Let_def del: ToLength.simps)

text \<open>
  C7. In every ProjectData produced by \<^verbatim>\<open>fetchAllDataViaGraphQL\<close> of \<^verbatim>\<open>finalUI.ts\<close>,
  \<^verbatim>\<open>teamVelocity.completedStoryPoints\<close> is at most \<^verbatim>\<open>teamVelocity.totalStoryPoints\<close>; one
  is produced unless the arrays are too long to be made.
\<close>

theorem completedStoryPoints_at_most_total:
  fixes w :: "(ProjectData, ComparisonKey) World"
  shows "case fst (fetchAllDataViaGraphQL draws now owner' repo' weeks w) of
           Rejected e \<Rightarrow> 2 ^ 32 \<le> ToLength weeks
         | Fulfilled d \<Rightarrow>
             completedStoryPoints (teamVelocity d) \<le> totalStoryPoints (teamVelocity d)"
  by (simp add: fetchAllDataViaGraphQL_def Array_from_draws Let_def del: ToLength.simps)

text \<open>
  C8. In every ProjectData produced by \<^verbatim>\<open>fetchAllDataViaGraphQL\<close>, every element of
  \<^verbatim>\<open>languageBreakdown\<close> has a percentage from 0 to 100; one is produced unless the arrays
  are too long to be made. This holds in both revisions.
\<close>

theorem languageBreakdown_percentages_in_range:
  fixes w :: "(ProjectData, ComparisonKey) World"
    and w' :: "(ProjectData_part_000, ComparisonKey_part_000) World"
  shows "(case fst (fetchAllDataViaGraphQL draws now owner' repo' weeks w) of
            Rejected e \<Rightarrow> 2 ^ 32 \<le> ToLength weeks
          | Fulfilled d \<Rightarrow>
              (\<forall>l\<in>set (languageBreakdown d). 0 \<le> percentage l \<and> percentage l \<le> 100)) \<and>
         (case fst (fetchAllDataViaGraphQL_part_000 draws owner' repo' weeks w') of
            Rejected e \<Rightarrow> 2 ^ 32 \<le> ToLength weeks
          | Fulfilled d \<Rightarrow>
              (\<forall>l\<in>set (ProjectData_part_000.languageBreakdown d).
                 0 \<le> percentage l \<and> percentage l \<le> 100))"
  by (simp add: fetchAllDataViaGraphQL_def fetchAllDataViaGraphQL_part_000_def
      Array_from_draws Let_def del: ToLength.simps)

text \<open>The three languages of the snapshot for twelve weeks, and their range.\<close>

theorem languageBreakdown_percentages_in_range_witness:
  "(\<exists>d. fst (fetchAllDataViaGraphQL draws_example 0 ''octocat'' ''hello-world'' (Finite 12) loaded)
          = Fulfilled d \<and>
        map percentage (languageBreakdown d) = [70, 20, 10] \<and>
        list_all (\<lambda>l. 0 \<le> percentage l \<and> percentage l \<le> 100) (languageBreakdown d)) \<and>
   (\<exists>d. fst (fetchAllDataViaGraphQL_part_000 draws_example ''octocat'' ''hello-world'' (Finite 12)
            loaded_part_000)
          = Fulfilled d \<and>
        map percentage (ProjectData_part_000.languageBreakdown d) = [70, 20, 10] \<and>
        list_all (\<lambda>l. 0 \<le> percentage l \<and> percentage l \<le> 100)
          (ProjectData_part_000.languageBreakdown d))"
proof -
  have len: "ToLength (Finite 12) = 12"
    by (simp add: trunc_def Let_def)
  obtain d where d: "fst (fetchAllDataViaGraphQL draws_example 0 ''octocat'' ''hello-world''
      (Finite 12) loaded) = Fulfilled d"
    and v: "map percentage (languageBreakdown d) = [70, 20, 10]"
    by (simp add: fetchAllDataViaGraphQL_def Array_from_draws len Let_def del: ToLength.simps)
  obtain e where e: "fst (fetchAllDataViaGraphQL_part_000 draws_example ''octocat''
      ''hello-world'' (Finite 12) loaded_part_000) = Fulfilled e"
    and u: "map percentage (ProjectData_part_000.languageBreakdown e) = [70, 20, 10]"
    by (simp add: fetchAllDataViaGraphQL_part_000_def Array_from_draws len Let_def
        del: ToLength.simps)
  note t = languageBreakdown_percentages_in_range [where draws = draws_example and now = 0
      and owner' = "''octocat''" and repo' = "''hello-world''" and weeks = "Finite 12"
      and w = loaded and w' = loaded_part_000]
  have b: "list_all (\<lambda>l. 0 \<le> percentage l \<and> percentage l \<le> 100) (languageBreakdown d)"
    "list_all (\<lambda>l. 0 \<le> percentage l \<and> percentage l \<le> 100)
       (ProjectData_part_000.languageBreakdown e)"
    using t unfolding d e list_all_iff by simp_all
  have "\<exists>d. fst (fetchAllDataViaGraphQL draws_example 0 ''octocat'' ''hello-world''
        (Finite 12) loaded) = Fulfilled d \<and>
      map percentage (languageBreakdown d) = [70, 20, 10] \<and>
      list_all (\<lambda>l. 0 \<le> percentage l \<and> percentage l \<le> 100) (languageBreakdown d)"
    using d v b(1) by (intro exI [of _ d] conjI)
  moreover
  have "\<exists>d. fst (fetchAllDataViaGraphQL_part_000 draws_example ''octocat'' ''hello-world''
        (Finite 12) loaded_part_000) = Fulfilled d \<and>
      map percentage (ProjectData_part_000.languageBreakdown d) = [70, 20, 10] \<and>
      list_all (\<lambda>l. 0 \<le> percentage l \<and> percentage l \<le> 100)
        (ProjectData_part_000.languageBreakdown d)"
    using e u b(2) by (intro exI [of _ e] conjI)
  ultimately show ?thesis
    by (rule conjI)
qed

section \<open>What a fetch leaves behind\<close>

text \<open>
  C9. For every input, \<^verbatim>\<open>fetchAllDataViaGraphQL\<close> leaves the state of the program as it
  was: the global \<^verbatim>\<open>comparisonState\<close>, with \<^verbatim>\<open>repoA\<close>, \<^verbatim>\<open>repoB\<close> and
  \<^verbatim>\<open>comparisonKey\<close>, is identical before and after the call, whether the promise is
  fulfilled or rejected. The world after the call differs from the one before only in
  the diagnostic line on the console. The random number generator and the clock belong
  to the host: what they return during the call is an input of the function here, and
  the generator's own progress is not state of the program. This holds in both revisions.
\<close>

theorem fetchAllDataViaGraphQL_changes_no_program_state:
  fixes w :: "(ProjectData, ComparisonKey) World"
    and w' :: "(ProjectData_part_000, ComparisonKey_part_000) World"
  shows "comparisonState (snd (fetchAllDataViaGraphQL draws now owner' repo' weeks w))
           = comparisonState w \<and>
         snd (fetchAllDataViaGraphQL draws now owner' repo' weeks w)
           = w\<lparr>console := console w @ [ExecutingGraphQLQuery owner' repo' weeks]\<rparr> \<and>
         comparisonState (snd (fetchAllDataViaGraphQL_part_000 draws owner' repo' weeks w'))
           = comparisonState w' \<and>
         snd (fetchAllDataViaGraphQL_part_000 draws owner' repo' weeks w')
           = w'\<lparr>console := console w' @ [ExecutingGraphQLQuery owner' repo' weeks]\<rparr>"
  by (simp add: fetchAllDataViaGraphQL_def fetchAllDataViaGraphQL_part_000_def
      Array_from_draws Let_def console_log_def del: ToLength.simps)

end
